theory Spec2Isabelle
  imports Complex_Main "HOL-Library.Sublist"
begin

section \<open>Tables (the pandas DataFrame held in \<open>DataProcessor.df\<close>)\<close>

text \<open>
  A cell is a scalar of the table: absent (pandas \<open>NaN\<close>), a number, or a text.
  A column carries the dtype pandas gave it; only \<open>Object\<close> matters to the code
  (\<open>select_dtypes(include=['object'])\<close>). A table keeps its header, the dtypes of
  its columns and its rows in order; the row labels (the pandas index) are left out,
  since no stage reads them and \<open>to_csv\<close> is called with \<open>index=False\<close>.
\<close>

datatype cell = NaN | Num rat | Str string

datatype dtype = Int64 | Float64 | Object

record dataframe =
  columns :: "string list"
  dtypes :: "dtype list"
  rows :: "cell list list"

text \<open>Exceptions are values; \<open>str_exn\<close> is Python's \<open>str(e)\<close>.\<close>

datatype exn =
    FileNotFoundError string
  | FileExistsError string
  | ValueError string
  | AttributeError string
  | KeyError string
  | TypeError string
  | OSError string
  | OtherError string

definition quoted :: "string \<Rightarrow> string" where
  "quoted s = [CHR 0x27] @ s @ [CHR 0x27]"

fun str_exn :: "exn \<Rightarrow> string" where
  "str_exn (FileNotFoundError m) = m"
| "str_exn (FileExistsError m) = m"
| "str_exn (ValueError m) = m"
| "str_exn (AttributeError m) = m"
| "str_exn (KeyError k) = quoted k"
| "str_exn (TypeError m) = m"
| "str_exn (OSError m) = m"
| "str_exn (OtherError m) = m"

subsection \<open>Text helpers: \<open>str.lower\<close> and \<open>str.strip\<close>\<close>

text \<open>
  A text is a list of code points below 256, one \<open>char\<close> for each (ASCII and the
  Latin-1 supplement). On these, \<open>str.strip()\<close> removes the characters for which
  \<open>str.isspace()\<close> holds: U+0009 to U+000D, U+001C to U+0020, U+0085 and U+00A0; and
  \<open>str.lower()\<close> maps A to Z and U+00C0 to U+00DE (the multiplication sign U+00D7
  apart) to the letter 32 code points above, and leaves every other character alone.
\<close>

definition is_space :: "char \<Rightarrow> bool" where
  "is_space c = (c \<in> set [CHR 0x09, CHR 0x0A, CHR 0x0B, CHR 0x0C, CHR 0x0D,
                           CHR 0x1C, CHR 0x1D, CHR 0x1E, CHR 0x1F, CHR 0x20,
                           CHR 0x85, CHR 0xA0])"

definition strip :: "string \<Rightarrow> string" where
  "strip s = rev (dropWhile is_space (rev (dropWhile is_space s)))"

definition upper_letters :: "char list" where
  "upper_letters =
     ''ABCDEFGHIJKLMNOPQRSTUVWXYZ'' @
       [CHR 0xC0, CHR 0xC1, CHR 0xC2, CHR 0xC3, CHR 0xC4, CHR 0xC5, CHR 0xC6, CHR 0xC7,
        CHR 0xC8, CHR 0xC9, CHR 0xCA, CHR 0xCB, CHR 0xCC, CHR 0xCD, CHR 0xCE, CHR 0xCF,
        CHR 0xD0, CHR 0xD1, CHR 0xD2, CHR 0xD3, CHR 0xD4, CHR 0xD5, CHR 0xD6, CHR 0xD8,
        CHR 0xD9, CHR 0xDA, CHR 0xDB, CHR 0xDC, CHR 0xDD, CHR 0xDE]"

definition lower_letters :: "char list" where
  "lower_letters =
     ''abcdefghijklmnopqrstuvwxyz'' @
       [CHR 0xE0, CHR 0xE1, CHR 0xE2, CHR 0xE3, CHR 0xE4, CHR 0xE5, CHR 0xE6, CHR 0xE7,
        CHR 0xE8, CHR 0xE9, CHR 0xEA, CHR 0xEB, CHR 0xEC, CHR 0xED, CHR 0xEE, CHR 0xEF,
        CHR 0xF0, CHR 0xF1, CHR 0xF2, CHR 0xF3, CHR 0xF4, CHR 0xF5, CHR 0xF6, CHR 0xF8,
        CHR 0xF9, CHR 0xFA, CHR 0xFB, CHR 0xFC, CHR 0xFD, CHR 0xFE]"

definition lower_char :: "char \<Rightarrow> char" where
  "lower_char c =
     (case map_of (zip upper_letters lower_letters) c of
        None \<Rightarrow> c
      | Some l \<Rightarrow> l)"

definition lower :: "string \<Rightarrow> string" where
  "lower s = map lower_char s"

subsection \<open>\<open>DataFrame.drop_duplicates()\<close> and \<open>DataFrame.dropna()\<close>\<close>

text \<open>
  \<open>drop_duplicates()\<close> (default \<open>keep='first'\<close>, all columns) walks the rows in
  order and keeps a row unless an equal row was seen before; absent cells compare equal.
\<close>

fun drop_seen :: "cell list list \<Rightarrow> cell list list \<Rightarrow> cell list list" where
  "drop_seen seen [] = []"
| "drop_seen seen (r # rs) =
     (if r \<in> set seen then drop_seen seen rs else r # drop_seen (r # seen) rs)"

definition drop_duplicates :: "dataframe \<Rightarrow> dataframe" where
  "drop_duplicates d = d\<lparr>rows := drop_seen [] (rows d)\<rparr>"

text \<open>
  \<open>dropna()\<close> (default \<open>how='any'\<close>, \<open>axis=0\<close>) keeps a row when none of its cells
  is absent.
\<close>

fun isnull :: "cell \<Rightarrow> bool" where
  "isnull NaN = True"
| "isnull (Num _) = False"
| "isnull (Str _) = False"

fun row_has_null :: "cell list \<Rightarrow> bool" where
  "row_has_null [] = False"
| "row_has_null (c # cs) = (if isnull c then True else row_has_null cs)"

fun drop_null_rows :: "cell list list \<Rightarrow> cell list list" where
  "drop_null_rows [] = []"
| "drop_null_rows (r # rs) =
     (if row_has_null r then drop_null_rows rs else r # drop_null_rows rs)"

definition dropna :: "dataframe \<Rightarrow> dataframe" where
  "dropna d = d\<lparr>rows := drop_null_rows (rows d)\<rparr>"

subsection \<open>Column assignment, header lowering and trimming\<close>

text \<open>
  \<open>df[name] = v\<close> with a scalar text \<open>v\<close>: an existing column of that name is
  overwritten in place and becomes an object column; otherwise the column is appended.
\<close>

definition set_named :: "string \<Rightarrow> ('a \<Rightarrow> 'a) \<Rightarrow> string list \<Rightarrow> 'a list \<Rightarrow> 'a list" where
  "set_named name f cols xs = map (\<lambda>(n, x). if n = name then f x else x) (zip cols xs)"

definition setitem_scalar :: "string \<Rightarrow> string \<Rightarrow> dataframe \<Rightarrow> dataframe" where
  "setitem_scalar name v d =
     (if name \<in> set (columns d)
      then d\<lparr>dtypes := set_named name (\<lambda>_. Object) (columns d) (dtypes d),
             rows := map (set_named name (\<lambda>_. Str v) (columns d)) (rows d)\<rparr>
      else d\<lparr>columns := columns d @ [name],
             dtypes := dtypes d @ [Object],
             rows := map (\<lambda>r. r @ [Str v]) (rows d)\<rparr>)"

definition lower_columns :: "dataframe \<Rightarrow> dataframe" where
  "lower_columns d = d\<lparr>columns := map lower (columns d)\<rparr>"

definition object_columns :: "dataframe \<Rightarrow> string list" where
  "object_columns d = map fst (filter (\<lambda>(n, t). t = Object) (zip (columns d) (dtypes d)))"

definition column_values :: "string \<Rightarrow> dataframe \<Rightarrow> cell list" where
  "column_values name d =
     concat (map (\<lambda>r. map snd (filter (\<lambda>(n, x). n = name) (zip (columns d) r))) (rows d))"

fun is_num :: "cell \<Rightarrow> bool" where
  "is_num (Num _) = True"
| "is_num _ = False"

text \<open>
  \<open>Series.str.strip()\<close>: a text is trimmed, anything else in the column becomes absent.
  The \<open>.str\<close> accessor itself raises \<open>AttributeError\<close> when \<open>df[col]\<close> is not a
  single column (the name occurs twice in the header) or when the column holds values
  and all of them are numbers.
\<close>

fun strip_cell :: "cell \<Rightarrow> cell" where
  "strip_cell (Str s) = Str (strip s)"
| "strip_cell _ = NaN"

definition str_accessor_error :: "string \<Rightarrow> dataframe \<Rightarrow> exn option" where
  "str_accessor_error name d =
     (if length (filter (\<lambda>n. n = name) (columns d)) \<noteq> 1
      then Some (AttributeError
             (quoted ''DataFrame'' @ '' object has no attribute '' @ quoted ''str''))
      else (let vs = filter (\<lambda>x. \<not> isnull x) (column_values name d)
            in if vs \<noteq> [] \<and> list_all is_num vs
               then Some (AttributeError ''Can only use .str accessor with string values!'')
               else None))"

definition strip_column :: "string \<Rightarrow> dataframe \<Rightarrow> dataframe" where
  "strip_column name d = d\<lparr>rows := map (set_named name strip_cell (columns d)) (rows d)\<rparr>"

text \<open>
  The loop \<open>for col in ...: self.df[col] = self.df[col].str.strip()\<close>; the table
  returned with an error is the table as the loop left it.
\<close>

fun strip_columns :: "string list \<Rightarrow> dataframe \<Rightarrow> exn option \<times> dataframe" where
  "strip_columns [] d = (None, d)"
| "strip_columns (c # cs) d =
     (case str_accessor_error c d of
        Some e \<Rightarrow> (Some e, d)
      | None \<Rightarrow> strip_columns cs (strip_column c d))"

section \<open>The environment of a run\<close>

text \<open>
  What the operating system, pandas' file reader and the clock answer is a parameter of
  the model. \<open>'p\<close> is the type of a path as the code receives it. The answers are
  those at the moment of the call; one run reads each file at most once and before it
  writes anything. \<open>clock k\<close> is the reading of the \<open>k\<close>-th call of
  \<open>datetime.now()\<close> in microseconds, \<open>isoformat\<close> and \<open>strftime\<close> render it
  (\<open>strftime\<close> with the format \<open>%Y%m%d_%H%M%S\<close>).
\<close>

record 'p env =
  pd_read_csv :: "'p \<Rightarrow> exn + dataframe"
  os_path_dirname :: "'p \<Rightarrow> exn + 'p"
  os_makedirs :: "'p \<Rightarrow> exn option"
  to_csv :: "'p \<Rightarrow> dataframe \<Rightarrow> exn option"
  clock :: "nat \<Rightarrow> int"
  isoformat :: "int \<Rightarrow> string"
  strftime :: "int \<Rightarrow> string"

text \<open>
  A run result is the dictionary \<open>process\<close> and \<open>run_pipeline\<close> return: the
  success dictionary has the keys \<open>rows_processed\<close>, \<open>duration_seconds\<close>,
  \<open>output_path\<close> and \<open>timestamp\<close>, the failure dictionary \<open>error\<close> and, when
  \<open>process\<close> built it, \<open>timestamp\<close>.
\<close>

datatype 'p run_result =
    Success nat rat 'p string
  | Failed string "string option"

fun is_success :: "'p run_result \<Rightarrow> bool" where
  "is_success (Success _ _ _ _) = True"
| "is_success (Failed _ _) = False"

datatype json =
    JNull | JBool bool | JInt int | JFloat rat | JStr string
  | JArr "json list" | JObj "(string \<times> json) list"

record 'p execution_log =
  pipeline_name :: json
  execution_time :: string
  result :: "'p run_result"

text \<open>The world records what a run did: the clock calls made and the files and directories written.\<close>

datatype 'p effect =
    MakeDirs 'p
  | WriteCsv 'p dataframe
  | WriteLog 'p "'p execution_log"

record 'p world =
  ticks :: nat
  effects :: "'p effect list"

definition datetime_now :: "'p env \<Rightarrow> 'p world \<Rightarrow> int \<times> 'p world" where
  "datetime_now env w = (clock env (ticks w), w\<lparr>ticks := Suc (ticks w)\<rparr>)"

definition emit :: "'p effect \<Rightarrow> 'p world \<Rightarrow> 'p world" where
  "emit x w = w\<lparr>effects := effects w @ [x]\<rparr>"

section \<open>\<open>DataProcessor\<close> (src/data\_processing.py)\<close>

record 'p DataProcessor =
  input_path :: 'p
  output_path :: 'p
  df :: "dataframe option"

definition init :: "'p \<Rightarrow> 'p \<Rightarrow> 'p DataProcessor" where
  "init inp outp = \<lparr>input_path = inp, output_path = outp, df = None\<rparr>"

text \<open>Every method takes the object and the world and returns its outcome with both updated.\<close>

type_synonym 'p state = "'p DataProcessor \<times> 'p world"

definition read_csv :: "'p env \<Rightarrow> 'p state \<Rightarrow> (exn + dataframe) \<times> 'p state" where
  "read_csv env s =
     (case s of (p, w) \<Rightarrow>
        (case pd_read_csv env (input_path p) of
           Inl e \<Rightarrow> (Inl e, s)
         | Inr d \<Rightarrow> (Inr d, (p\<lparr>df := Some d\<rparr>, w))))"

definition clean_data :: "'p state \<Rightarrow> (exn + dataframe) \<times> 'p state" where
  "clean_data s =
     (case s of (p, w) \<Rightarrow>
        (case df p of
           None \<Rightarrow> (Inl (ValueError ''No data loaded. Call read_csv() first.''), s)
         | Some d \<Rightarrow>
             (let d1 = drop_duplicates d; d2 = dropna d1
              in (Inr d2, (p\<lparr>df := Some d2\<rparr>, w)))))"

definition transform_data :: "'p env \<Rightarrow> 'p state \<Rightarrow> (exn + dataframe) \<times> 'p state" where
  "transform_data env s =
     (case s of (p, w) \<Rightarrow>
        (case df p of
           None \<Rightarrow> (Inl (ValueError ''No data loaded. Call read_csv() first.''), s)
         | Some d \<Rightarrow>
             (case datetime_now env w of (t, w1) \<Rightarrow>
                (let d1 = setitem_scalar ''processed_timestamp'' (isoformat env t) d;
                     d2 = lower_columns d1
                 in (case strip_columns (object_columns d2) d2 of
                       (Some e, d3) \<Rightarrow> (Inl e, (p\<lparr>df := Some d3\<rparr>, w1))
                     | (None, d3) \<Rightarrow> (Inr d3, (p\<lparr>df := Some d3\<rparr>, w1)))))))"

definition has_null :: "dataframe \<Rightarrow> bool" where
  "has_null d = list_ex row_has_null (rows d)"

definition validate_data :: "'p state \<Rightarrow> (exn + bool) \<times> 'p state" where
  "validate_data s =
     (case s of (p, w) \<Rightarrow>
        (case df p of
           None \<Rightarrow> (Inl (ValueError ''No data loaded.''), s)
         | Some d \<Rightarrow>
             (if length (rows d) = 0 then (Inr False, s)
              else if has_null d then (Inr False, s)
              else (Inr True, s))))"

definition write_csv :: "'p env \<Rightarrow> 'p state \<Rightarrow> (exn + unit) \<times> 'p state" where
  "write_csv env s =
     (case s of (p, w) \<Rightarrow>
        (case df p of
           None \<Rightarrow> (Inl (ValueError ''No data to write.''), s)
         | Some d \<Rightarrow>
             (case os_path_dirname env (output_path p) of
                Inl e \<Rightarrow> (Inl e, s)
              | Inr dir \<Rightarrow>
                  (case os_makedirs env dir of
                     Some e \<Rightarrow> (Inl e, s)
                   | None \<Rightarrow>
                       (let w1 = emit (MakeDirs dir) w
                        in (case to_csv env (output_path p) d of
                              Some e \<Rightarrow> (Inl e, (p, w1))
                            | None \<Rightarrow> (Inr (), (p, emit (WriteCsv (output_path p) d) w1))))))))"

text \<open>
  The body of the \<open>try\<close> block of \<open>process\<close>: an exception of a stage ends it at
  once (\<open>Inl\<close>), with the object and the world as that stage left them.
\<close>

definition total_seconds :: "int \<Rightarrow> rat" where
  "total_seconds us = of_int us / 1000000"

definition bind_exn ::
  "(exn + 'a) \<times> 's \<Rightarrow> ('a \<Rightarrow> 's \<Rightarrow> (exn + 'b) \<times> 's) \<Rightarrow> (exn + 'b) \<times> 's" where
  "bind_exn m f = (case m of (Inl e, s) \<Rightarrow> (Inl e, s) | (Inr x, s) \<Rightarrow> f x s)"

definition finish :: "'p env \<Rightarrow> int \<Rightarrow> 'p state \<Rightarrow> (exn + 'p run_result) \<times> 'p state" where
  "finish env start_time s =
     (case s of (p, w) \<Rightarrow>
        (case datetime_now env w of (end_time, w1) \<Rightarrow>
           (case df p of
              None \<Rightarrow>
                (Inl (TypeError (''object of type '' @ quoted ''NoneType'' @ '' has no len()'')),
                 (p, w1))
            | Some d \<Rightarrow>
                (case datetime_now env w1 of (stamp, w2) \<Rightarrow>
                   (Inr (Success (length (rows d)) (total_seconds (end_time - start_time))
                           (output_path p) (isoformat env stamp)), (p, w2))))))"

definition process_try :: "'p env \<Rightarrow> 'p state \<Rightarrow> (exn + 'p run_result) \<times> 'p state" where
  "process_try env s =
     (case s of (p, w) \<Rightarrow>
        (case datetime_now env w of (start_time, w0) \<Rightarrow>
           bind_exn (read_csv env (p, w0)) (\<lambda>_ s1.
           bind_exn (clean_data s1) (\<lambda>_ s2.
           bind_exn (transform_data env s2) (\<lambda>_ s3.
           bind_exn (validate_data s3) (\<lambda>valid s4.
             if \<not> valid then (Inl (ValueError ''Data validation failed''), s4)
             else bind_exn (write_csv env s4) (\<lambda>_ s5. finish env start_time s5)))))))"

text \<open>
  \<open>process\<close>: the \<open>except Exception\<close> clause (\<open>on_exception\<close>) turns the
  exception into the failure dictionary, stamped with a new reading of the clock.
\<close>

definition on_exception :: "'p env \<Rightarrow> exn \<Rightarrow> 'p state \<Rightarrow> 'p run_result \<times> 'p state" where
  "on_exception env e s =
     (case s of (p, w) \<Rightarrow>
        (case datetime_now env w of (stamp, w1) \<Rightarrow>
           (Failed (str_exn e) (Some (isoformat env stamp)), (p, w1))))"

definition process :: "'p env \<Rightarrow> 'p state \<Rightarrow> 'p run_result \<times> 'p state" where
  "process env s =
     (case process_try env s of
        (Inr r, s') \<Rightarrow> (r, s')
      | (Inl e, s') \<Rightarrow> on_exception env e s')"

section \<open>The orchestrator (src/pipeline\_orchestrator.py)\<close>

text \<open>
  The configuration is the value \<open>json.load\<close> returned. \<open>getitem\<close> is Python's
  \<open>config[key]\<close> and \<open>dict_get\<close> is \<open>config.get(key, default)\<close>; both raise on
  a value that is not a dictionary.
\<close>

fun type_name :: "json \<Rightarrow> string" where
  "type_name JNull = ''NoneType''"
| "type_name (JBool _) = ''bool''"
| "type_name (JInt _) = ''int''"
| "type_name (JFloat _) = ''float''"
| "type_name (JStr _) = ''str''"
| "type_name (JArr _) = ''list''"
| "type_name (JObj _) = ''dict''"

fun getitem :: "json \<Rightarrow> string \<Rightarrow> exn + json" where
  "getitem (JObj kvs) k = (case map_of kvs k of None \<Rightarrow> Inl (KeyError k) | Some v \<Rightarrow> Inr v)"
| "getitem (JArr _) k = Inl (TypeError ''list indices must be integers or slices, not str'')"
| "getitem (JStr _) k = Inl (TypeError ''string indices must be integers'')"
| "getitem v k = Inl (TypeError (quoted (type_name v) @ '' object is not subscriptable''))"

fun dict_get :: "json \<Rightarrow> string \<Rightarrow> json \<Rightarrow> exn + json" where
  "dict_get (JObj kvs) k dflt = (case map_of kvs k of None \<Rightarrow> Inr dflt | Some v \<Rightarrow> Inr v)"
| "dict_get v k dflt =
     Inl (AttributeError (quoted (type_name v) @ '' object has no attribute '' @ quoted ''get''))"

text \<open>\<open>os.path.join(a, b)\<close> of posixpath, for a directory that is a text.\<close>

fun os_path_join :: "json \<Rightarrow> string \<Rightarrow> exn + json" where
  "os_path_join (JStr a) b =
     Inr (JStr (if b \<noteq> [] \<and> hd b = CHR ''/'' then b
                else if a = [] \<or> last a = CHR ''/'' then a @ b
                else a @ ''/'' @ b))"
| "os_path_join v b =
     Inl (TypeError (''expected str, bytes or os.PathLike object, not '' @ type_name v))"

text \<open>
  The orchestrator's own calls to the outside: \<open>load_config\<close> is \<open>open\<close> followed by
  \<open>json.load\<close>, \<open>write_log\<close> is \<open>open(log_file, 'w')\<close> followed by \<open>json.dump\<close>.
\<close>

record orchestrator_env =
  base :: "json env"
  load_config :: "string \<Rightarrow> exn + json"
  write_log :: "json \<Rightarrow> json execution_log \<Rightarrow> exn option"

definition pure :: "exn + 'a \<Rightarrow> 's \<Rightarrow> (exn + 'a) \<times> 's" where
  "pure x s = (x, s)"

definition save_log ::
  "orchestrator_env \<Rightarrow> json \<Rightarrow> json run_result \<Rightarrow> json world \<Rightarrow> (exn + json run_result) \<times> json world" where
  "save_log oenv config res w =
     bind_exn (pure (dict_get config ''pipeline_name'' (JStr ''default'')) w) (\<lambda>name w1.
       (case datetime_now (base oenv) w1 of (t1, w2) \<Rightarrow>
          (let execution_log =
                 \<lparr>pipeline_name = name, execution_time = isoformat (base oenv) t1, result = res\<rparr>
           in bind_exn (pure (dict_get config ''log_path'' (JStr ''logs'')) w2) (\<lambda>log_dir w3.
                (case os_makedirs (base oenv) log_dir of
                   Some e \<Rightarrow> (Inl e, w3)
                 | None \<Rightarrow>
                     (case datetime_now (base oenv) (emit (MakeDirs log_dir) w3) of (t2, w4) \<Rightarrow>
                        bind_exn
                          (pure (os_path_join log_dir
                                   (''execution_'' @ strftime (base oenv) t2 @ ''.json'')) w4)
                          (\<lambda>log_file w5.
                             (case write_log oenv log_file execution_log of
                                Some e \<Rightarrow> (Inl e, w5)
                              | None \<Rightarrow>
                                  (Inr res, emit (WriteLog log_file execution_log) w5)))))))))"

definition run_pipeline_try ::
  "orchestrator_env \<Rightarrow> json world \<Rightarrow> string \<Rightarrow> (exn + json run_result) \<times> json world" where
  "run_pipeline_try oenv w config_path =
     bind_exn (pure (load_config oenv config_path) w) (\<lambda>config w1.
     bind_exn (pure (getitem config ''input_path'') w1) (\<lambda>inp w2.
     bind_exn (pure (getitem config ''output_path'') w2) (\<lambda>outp w3.
       (case process (base oenv) (init inp outp, w3) of
          (res, (p, w4)) \<Rightarrow> save_log oenv config res w4))))"

definition run_pipeline :: "orchestrator_env \<Rightarrow> json world \<Rightarrow> string \<Rightarrow> json run_result \<times> json world" where
  "run_pipeline oenv w config_path =
     (case run_pipeline_try oenv w config_path of
        (Inr r, w') \<Rightarrow> (r, w')
      | (Inl e, w') \<Rightarrow> (Failed (str_exn e) None, w'))"

text \<open>The execution logs among the effects of a run.\<close>

fun is_write_log :: "'p effect \<Rightarrow> bool" where
  "is_write_log (WriteLog _ _) = True"
| "is_write_log _ = False"

definition logs_written :: "'p world \<Rightarrow> 'p effect list" where
  "logs_written w = filter is_write_log (effects w)"

definition later_world :: "'p world \<Rightarrow> 'p world \<Rightarrow> bool" where
  "later_world w w' = (logs_written w' = logs_written w \<and> ticks w \<le> ticks w')"

section \<open>Tables that were normalized before\<close>











section \<open>A sample environment\<close>

text \<open>
  A small file system for concrete runs: the regular files \<open>data/input.csv\<close> (which
  pandas reads as the table \<open>d\<close>) and \<open>config/pipeline_config.json\<close> (which holds
  the configuration \<open>cfg\<close>). \<open>os.makedirs(path, exist_ok=True)\<close> raises
  \<open>FileNotFoundError\<close> for the empty path and \<open>FileExistsError\<close> when the path is
  a regular file. The clock advances one second per reading.
\<close>

definition posix_dirname :: "string \<Rightarrow> string" where
  "posix_dirname p =
     (let head = rev (dropWhile (\<lambda>c. c \<noteq> CHR ''/'') (rev p))
      in if head \<noteq> [] \<and> \<not> list_all (\<lambda>c. c = CHR ''/'') head
         then rev (dropWhile (\<lambda>c. c = CHR ''/'') (rev head))
         else head)"

definition digit :: "int \<Rightarrow> char" where
  "digit t = ''0123456789'' ! nat (t div 1000000 mod 10)"

definition sample_files :: "string list" where
  "sample_files = [''data/input.csv'', ''config/pipeline_config.json'']"

definition sample_env :: "dataframe \<Rightarrow> json env" where
  "sample_env d =
     \<lparr>pd_read_csv = (\<lambda>p. case p of
          JStr s \<Rightarrow>
            if s = ''data/input.csv'' then Inr d
            else Inl (FileNotFoundError (''[Errno 2] No such file or directory: '' @ quoted s))
        | _ \<Rightarrow> Inl (ValueError ''Invalid file path or buffer object type'')),
      os_path_dirname = (\<lambda>p. case p of
          JStr s \<Rightarrow> Inr (JStr (posix_dirname s))
        | _ \<Rightarrow> Inl (TypeError (''expected str, bytes or os.PathLike object, not '' @ type_name p))),
      os_makedirs = (\<lambda>p. case p of
          JStr s \<Rightarrow>
            if s = [] then Some (FileNotFoundError (''[Errno 2] No such file or directory: '' @ quoted s))
            else if s \<in> set sample_files then Some (FileExistsError (''[Errno 17] File exists: '' @ quoted s))
            else None
        | _ \<Rightarrow> Some (TypeError (''expected str, bytes or os.PathLike object, not '' @ type_name p))),
      to_csv = (\<lambda>p d. None),
      clock = (\<lambda>k. 1000000 * int k),
      isoformat = (\<lambda>t. ''2024-01-01T00:00:0'' @ [digit t]),
      strftime = (\<lambda>t. ''20240101_00000'' @ [digit t])\<rparr>"

definition sample_orchestrator_env :: "dataframe \<Rightarrow> json \<Rightarrow> orchestrator_env" where
  "sample_orchestrator_env d cfg =
     \<lparr>base = sample_env d,
      load_config = (\<lambda>path.
        if path = ''config/pipeline_config.json'' then Inr cfg
        else Inl (FileNotFoundError (''[Errno 2] No such file or directory: '' @ quoted path))),
      write_log = (\<lambda>p l. None)\<rparr>"

definition new_world :: "json world" where
  "new_world = \<lparr>ticks = 0, effects = []\<rparr>"

definition sample_processor :: "json DataProcessor" where
  "sample_processor = init (JStr ''data/input.csv'') (JStr ''data/output.csv'')"

definition sample_input :: dataframe where
  "sample_input =
     \<lparr>columns = [''id'', ''name'', ''email''], dtypes = [Int64, Object, Object],
      rows = [[Num 1, Str '' Alice '', Str ''a@x.com''],
              [Num 1, Str '' Alice '', Str ''a@x.com''],
              [Num 2, Str ''Bob'', NaN]]\<rparr>"

definition sample_output :: "string \<Rightarrow> dataframe" where
  "sample_output ts =
     \<lparr>columns = [''id'', ''name'', ''email'', ''processed_timestamp''],
      dtypes = [Int64, Object, Object, Object],
      rows = [[Num 1, Str ''Alice'', Str ''a@x.com'', Str (strip ts)]]\<rparr>"

definition sample_incomplete :: dataframe where
  "sample_incomplete =
     \<lparr>columns = [''id'', ''email''], dtypes = [Int64, Object],
      rows = [[Num 1, Str ''a@x.com''], [Num 2, NaN], [NaN, Str ''c@x.com''], [Num 4, Str ''d@x.com'']]\<rparr>"

definition sample_all_incomplete :: dataframe where
  "sample_all_incomplete =
     \<lparr>columns = [''id'', ''email''], dtypes = [Int64, Object], rows = [[Num 2, NaN]]\<rparr>"

definition sample_emptied :: dataframe where
  "sample_emptied =
     \<lparr>columns = [''id'', ''email'', ''processed_timestamp''], dtypes = [Int64, Object, Object],
      rows = []\<rparr>"

definition sample_config :: json where
  "sample_config =
     JObj [(''pipeline_name'', JStr ''adf-python-pipeline''),
           (''input_path'', JStr ''data/input.csv''),
           (''output_path'', JStr ''data/output.csv'')]"

definition config_without_input :: json where
  "config_without_input =
     JObj [(''pipeline_name'', JStr ''adf-python-pipeline''),
           (''output_path'', JStr ''data/output.csv'')]"

definition config_log_path_is_file :: json where
  "config_log_path_is_file =
     JObj [(''input_path'', JStr ''data/input.csv''),
           (''output_path'', JStr ''data/output.csv''),
           (''log_path'', JStr ''config/pipeline_config.json'')]"

section \<open>The cleaning stages\<close>

lemma drop_seen_set: "set (drop_seen seen rs) = set rs - set seen"
  by (induction rs arbitrary: seen) auto

lemma drop_seen_distinct: "distinct (drop_seen seen rs)"
  by (induction rs arbitrary: seen) (auto simp: drop_seen_set)

lemma upt_Suc_shift: "[0..<Suc n] = 0 # map Suc [0..<n]"
  by (simp add: upt_conv_Cons map_Suc_upt del: upt_Suc)

lemma drop_seen_first:
  "drop_seen seen rs =
     map (\<lambda>i. rs ! i) (filter (\<lambda>i. rs ! i \<notin> set seen \<union> set (take i rs)) [0..<length rs])"
proof (induction rs arbitrary: seen)
  case Nil
  then show ?case by simp
next
  case (Cons r rs)
  have shift: "[0..<length (r # rs)] = 0 # map Suc [0..<length rs]"
    using upt_Suc_shift [of "length rs"] by simp
  show ?case
  proof (cases "r \<in> set seen")
    case True
    have "filter (\<lambda>i. rs ! i \<notin> set seen \<and> rs ! i \<notin> set (take i rs)) [0..<length rs]
        = filter (\<lambda>i. rs ! i \<notin> set seen \<and> rs ! i \<noteq> r \<and> rs ! i \<notin> set (take i rs))
            [0..<length rs]"
      using True by (intro filter_cong) auto
    then show ?thesis using True Cons.IH [of seen]
      unfolding shift by (simp add: filter_map comp_def)
  next
    case False
    have "filter (\<lambda>i. rs ! i \<noteq> r \<and> rs ! i \<notin> set seen \<and> rs ! i \<notin> set (take i rs)) [0..<length rs]
        = filter (\<lambda>i. rs ! i \<notin> set seen \<and> rs ! i \<noteq> r \<and> rs ! i \<notin> set (take i rs))
            [0..<length rs]"
      by (intro filter_cong) auto
    then show ?thesis using False Cons.IH [of "r # seen"]
      unfolding shift by (simp add: filter_map comp_def)
  qed
qed

text \<open>
  The table \<open>drop_duplicates()\<close> returns: no two rows are equal, the rows are those
  of the input that no earlier row equals, by increasing position.
\<close>

lemma drop_duplicates_rows:
  shows "distinct (rows (drop_duplicates d))"
    and "rows (drop_duplicates d) =
           map (\<lambda>i. rows d ! i)
             (filter (\<lambda>i. rows d ! i \<notin> set (take i (rows d))) [0..<length (rows d)])"
    and "set (rows (drop_duplicates d)) = set (rows d)"
    and "columns (drop_duplicates d) = columns d"
    and "dtypes (drop_duplicates d) = dtypes d"
proof -
  show "distinct (rows (drop_duplicates d))"
    by (simp add: drop_duplicates_def drop_seen_distinct)
  show "rows (drop_duplicates d) =
     map (\<lambda>i. rows d ! i)
       (filter (\<lambda>i. rows d ! i \<notin> set (take i (rows d))) [0..<length (rows d)])"
    using drop_seen_first [of "[]" "rows d"] by (simp add: drop_duplicates_def)
  show "set (rows (drop_duplicates d)) = set (rows d)"
    by (simp add: drop_duplicates_def drop_seen_set)
  show "columns (drop_duplicates d) = columns d" "dtypes (drop_duplicates d) = dtypes d"
    by (simp_all add: drop_duplicates_def)
qed

lemma row_has_null_iff: "row_has_null r = (\<exists>c\<in>set r. isnull c)"
  by (induction r) auto

lemma isnull_iff: "isnull c = (c = NaN)"
  by (cases c) auto

lemma drop_null_rows_filter: "drop_null_rows rs = filter (\<lambda>r. \<not> row_has_null r) rs"
  by (induction rs) auto

text \<open>The table \<open>dropna()\<close> returns: the rows without an absent cell, in order.\<close>

lemma dropna_rows:
  shows "rows (dropna d) = filter (\<lambda>r. NaN \<notin> set r) (rows d)"
    and "columns (dropna d) = columns d"
    and "dtypes (dropna d) = dtypes d"
proof -
  have "filter (\<lambda>r. \<not> row_has_null r) (rows d) = filter (\<lambda>r. NaN \<notin> set r) (rows d)"
    by (intro filter_cong) (auto simp: row_has_null_iff isnull_iff)
  then show "rows (dropna d) = filter (\<lambda>r. NaN \<notin> set r) (rows d)"
    by (simp add: dropna_def drop_null_rows_filter)
  show "columns (dropna d) = columns d" "dtypes (dropna d) = dtypes d"
    by (simp_all add: dropna_def)
qed

section \<open>The stages, one at a time\<close>

lemma strip_columns_error: "strip_columns cs d = (Some e, d') \<Longrightarrow> \<exists>m. e = AttributeError m"
  by (induction cs arbitrary: d) (auto simp: str_accessor_error_def Let_def split: if_splits option.splits)

lemma has_null_iff: "has_null d = (\<exists>r\<in>set (rows d). NaN \<in> set r)"
  by (auto simp: has_null_def list_ex_iff row_has_null_iff isnull_iff)

lemma read_csv_result:
  "read_csv env (p, w) = (r, s1) \<Longrightarrow>
     (\<forall>e. r = Inl e \<longrightarrow> s1 = (p, w) \<and> pd_read_csv env (input_path p) = Inl e) \<and>
     (\<forall>d. r = Inr d \<longrightarrow> s1 = (p\<lparr>df := Some d\<rparr>, w) \<and> pd_read_csv env (input_path p) = Inr d)"
  by (auto simp: read_csv_def split: sum.splits)

lemma clean_data_loaded:
  "df p = Some d \<Longrightarrow>
   clean_data (p, w) = (Inr (dropna (drop_duplicates d)), (p\<lparr>df := Some (dropna (drop_duplicates d))\<rparr>, w))"
  by (simp add: clean_data_def Let_def)

lemma validate_data_loaded:
  "df p = Some d \<Longrightarrow>
   validate_data (p, w) = (Inr (\<not> (rows d = [] \<or> (\<exists>r\<in>set (rows d). NaN \<in> set r))), (p, w))"
  by (simp add: validate_data_def has_null_iff)

lemma transform_data_result:
  "transform_data env (p, w) = (r, (p', w')) \<Longrightarrow> df p \<noteq> None \<Longrightarrow>
     df p' \<noteq> None \<and> (\<forall>d. r = Inr d \<longrightarrow> df p' = Some d) \<and>
     (\<forall>e. r = Inl e \<longrightarrow> (\<exists>m. e = AttributeError m)) \<and>
     effects w' = effects w \<and> ticks w' = Suc (ticks w) \<and>
     input_path p' = input_path p \<and> output_path p' = output_path p"
  by (auto simp: transform_data_def datetime_now_def Let_def
      split: option.splits prod.splits dest: strip_columns_error)

lemma write_csv_result:
  "write_csv env (p, w) = (Inr u, (p', w')) \<Longrightarrow>
     p' = p \<and> df p \<noteq> None \<and> ticks w' = ticks w \<and>
     (\<exists>dir d. df p = Some d \<and> os_path_dirname env (output_path p) = Inr dir \<and>
        effects w' = effects w @ [MakeDirs dir, WriteCsv (output_path p) d])"
  by (auto simp: write_csv_def emit_def Let_def split: option.splits sum.splits)

lemma write_csv_object: "fst (snd (write_csv env (p, w))) = p"
  by (auto simp: write_csv_def emit_def Let_def split: option.splits sum.splits)

lemma finish_loaded:
  "df p = Some d \<Longrightarrow>
   finish env t0 (p, w) =
     (Inr (Success (length (rows d)) (total_seconds (clock env (ticks w) - t0)) (output_path p)
        (isoformat env (clock env (Suc (ticks w))))), (p, w\<lparr>ticks := Suc (Suc (ticks w))\<rparr>))"
  by (simp add: finish_def datetime_now_def)

lemmas stage_defs = read_csv_def clean_data_def transform_data_def validate_data_def
  write_csv_def finish_def datetime_now_def emit_def bind_exn_def

subsection \<open>The sample run, evaluated\<close>

lemma dirname_sample: "posix_dirname ''data/output.csv'' = ''data''"
  by (simp add: posix_dirname_def)

lemma clean_sample: "dropna (drop_duplicates sample_input) =
   \<lparr>columns = [''id'', ''name'', ''email''], dtypes = [Int64, Object, Object],
      rows = [[Num 1, Str '' Alice '', Str ''a@x.com'']]\<rparr>"
  by (simp add: sample_input_def dropna_def drop_duplicates_def)

lemma lower_samples:
  "lower ''id'' = ''id''" "lower ''name'' = ''name''" "lower ''email'' = ''email''"
  "lower ''processed_timestamp'' = ''processed_timestamp''"
  by (simp_all add: lower_def lower_char_def upper_letters_def lower_letters_def)

lemma strip_samples: "strip '' Alice '' = ''Alice''" "strip ''a@x.com'' = ''a@x.com''"
  by (simp_all add: strip_def is_space_def)

lemma normalize_sample:
  "strip_columns
     (object_columns (lower_columns (setitem_scalar ''processed_timestamp'' ts
        (dropna (drop_duplicates sample_input)))))
     (lower_columns (setitem_scalar ''processed_timestamp'' ts
        (dropna (drop_duplicates sample_input))))
   = (None, sample_output ts)"
  unfolding clean_sample
  by (simp add: setitem_scalar_def lower_columns_def lower_samples object_columns_def
      str_accessor_error_def column_values_def strip_column_def set_named_def strip_samples
      sample_output_def)

lemma digits:
  "digit 0 = CHR ''0''" "digit 1000000 = CHR ''1''" "digit 2000000 = CHR ''2''"
  "digit 3000000 = CHR ''3''" "digit 4000000 = CHR ''4''" "digit 5000000 = CHR ''5''"
  by (simp_all add: digit_def)

lemma strip_stamp: "strip (''2024-01-01T00:00:0'' @ [CHR ''1'']) = ''2024-01-01T00:00:01''"
  by (simp add: strip_def is_space_def)

lemma sample_run:
  "process (sample_env sample_input) (sample_processor, new_world) =
     (Success 1 2 (JStr ''data/output.csv'') ''2024-01-01T00:00:03'',
      (sample_processor\<lparr>df := Some (sample_output ''2024-01-01T00:00:01'')\<rparr>,
       \<lparr>ticks = 4, effects = [MakeDirs (JStr ''data''),
           WriteCsv (JStr ''data/output.csv'') (sample_output ''2024-01-01T00:00:01'')]\<rparr>))"
  by (simp add: process_def process_try_def stage_defs Let_def normalize_sample has_null_def
      sample_output_def sample_env_def sample_processor_def init_def new_world_def dirname_sample
      digits strip_stamp total_seconds_def sample_files_def)

section \<open>The cleaning stage of the pipeline\<close>

lemma drop_seen_subseq: "subseq (drop_seen seen rs) rs"
  by (induction rs arbitrary: seen) (simp_all add: list_emb_Cons)

lemma absent_free: "(\<forall>c\<in>set r. c \<noteq> NaN) = (NaN \<notin> set r)"
  by auto

lemma complete_first_occurrences:
  "rows (dropna (drop_duplicates d)) =
     map (\<lambda>i. rows d ! i)
       (filter (\<lambda>i. rows d ! i \<notin> set (take i (rows d)) \<and> NaN \<notin> set (rows d ! i))
          [0..<length (rows d)])"
  unfolding dropna_rows(1) [of "drop_duplicates d"] drop_duplicates_rows(2) [of d]
  by (simp add: filter_map comp_def)

text \<open>
  Claim C3. On a loaded table \<open>clean_data\<close> first removes the duplicates: the table
  it goes on with has no two equal rows, its rows are exactly the rows of the input that
  no earlier row equals (the first occurrences), by increasing position, so in the order
  of the input. The table \<open>clean_data\<close> stores and returns is that table without its
  incomplete rows: again no two rows are equal, and its rows are the complete first
  occurrences of the input in the order of the input.
\<close>

theorem clean_data_deduplicates:
  assumes "df p = Some d"
  shows "\<exists>d'. clean_data (p, w) = (Inr d', (p\<lparr>df := Some d'\<rparr>, w)) \<and>
           d' = dropna (drop_duplicates d) \<and>
           distinct (rows (drop_duplicates d)) \<and>
           rows (drop_duplicates d) =
             map (\<lambda>i. rows d ! i)
               (filter (\<lambda>i. rows d ! i \<notin> set (take i (rows d))) [0..<length (rows d)]) \<and>
           subseq (rows (drop_duplicates d)) (rows d) \<and>
           set (rows (drop_duplicates d)) = set (rows d) \<and>
           distinct (rows d') \<and>
           rows d' =
             map (\<lambda>i. rows d ! i)
               (filter (\<lambda>i. rows d ! i \<notin> set (take i (rows d)) \<and> NaN \<notin> set (rows d ! i))
                  [0..<length (rows d)]) \<and>
           subseq (rows d') (rows d)"
proof -
  let ?d1 = "drop_duplicates d"
  let ?d' = "dropna ?d1"
  have run: "clean_data (p, w) = (Inr ?d', (p\<lparr>df := Some ?d'\<rparr>, w))"
    using assms by (rule clean_data_loaded)
  have s1: "subseq (rows ?d1) (rows d)"
    by (simp add: drop_duplicates_def drop_seen_subseq)
  have f: "rows ?d' = filter (\<lambda>r. NaN \<notin> set r) (rows ?d1)"
    by (rule dropna_rows(1))
  have d2: "distinct (rows ?d')"
    unfolding f using drop_duplicates_rows(1) [of d] by (rule distinct_filter)
  have "subseq (rows ?d') (rows ?d1)"
    unfolding f by (rule subseq_filter_left)
  from subseq_order.order_trans [OF this s1] have s2: "subseq (rows ?d') (rows d)" .
  show ?thesis
    by (intro exI [of _ ?d'] conjI run refl drop_duplicates_rows(1,2,3) s1 d2 s2
        complete_first_occurrences)
qed

theorem clean_data_deduplicates_witness:
  "clean_data (sample_processor\<lparr>df := Some sample_input\<rparr>, new_world) =
     (Inr \<lparr>columns = [''id'', ''name'', ''email''], dtypes = [Int64, Object, Object],
           rows = [[Num 1, Str '' Alice '', Str ''a@x.com'']]\<rparr>,
      (sample_processor\<lparr>df := Some
          \<lparr>columns = [''id'', ''name'', ''email''], dtypes = [Int64, Object, Object],
           rows = [[Num 1, Str '' Alice '', Str ''a@x.com'']]\<rparr>\<rparr>, new_world))"
proof -
  have "df (sample_processor\<lparr>df := Some sample_input\<rparr>) = Some sample_input"
    by simp
  from clean_data_deduplicates [OF this, of new_world]
  obtain d' where r: "clean_data (sample_processor\<lparr>df := Some sample_input\<rparr>, new_world) =
      (Inr d', (sample_processor\<lparr>df := Some sample_input, df := Some d'\<rparr>, new_world))"
    and e: "d' = dropna (drop_duplicates sample_input)"
    by (elim exE conjE)
  show ?thesis
    unfolding r e clean_sample by simp
qed

text \<open>
  Claim C4. On a loaded table \<open>clean_data\<close> then drops the incomplete rows: the table
  it stores and returns holds exactly the rows of the deduplicated table that have a
  value in every column, in their order; every row of it has a value for every column;
  as a set, its rows are the rows of the input without an absent cell. The header and
  the dtypes are those of the input.
\<close>

theorem clean_data_drops_incomplete:
  assumes "df p = Some d"
  shows "\<exists>d'. clean_data (p, w) = (Inr d', (p\<lparr>df := Some d'\<rparr>, w)) \<and>
           rows d' = filter (\<lambda>r. \<forall>c\<in>set r. c \<noteq> NaN) (rows (drop_duplicates d)) \<and>
           subseq (rows d') (rows (drop_duplicates d)) \<and>
           (\<forall>r\<in>set (rows d'). \<forall>c\<in>set r. c \<noteq> NaN) \<and>
           set (rows d') = {r \<in> set (rows d). NaN \<notin> set r} \<and>
           \<not> has_null d' \<and>
           columns d' = columns d \<and> dtypes d' = dtypes d"
proof -
  let ?d1 = "drop_duplicates d"
  let ?d' = "dropna ?d1"
  have run: "clean_data (p, w) = (Inr ?d', (p\<lparr>df := Some ?d'\<rparr>, w))"
    using assms by (rule clean_data_loaded)
  have f0: "rows ?d' = filter (\<lambda>r. NaN \<notin> set r) (rows ?d1)"
    by (rule dropna_rows(1))
  have f: "rows ?d' = filter (\<lambda>r. \<forall>c\<in>set r. c \<noteq> NaN) (rows ?d1)"
    unfolding f0 absent_free ..
  have s: "subseq (rows ?d') (rows ?d1)"
    unfolding f0 by (rule subseq_filter_left)
  have c: "\<forall>r\<in>set (rows ?d'). \<forall>c\<in>set r. c \<noteq> NaN"
    unfolding f by simp
  have e: "set (rows ?d') = {r \<in> set (rows d). NaN \<notin> set r}"
    unfolding f0 by (simp add: drop_duplicates_rows(3))
  have n: "\<not> has_null ?d'"
    unfolding has_null_iff f0 by simp
  have h: "columns ?d' = columns d" "dtypes ?d' = dtypes d"
    by (simp_all add: dropna_rows drop_duplicates_rows)
  show ?thesis
    by (intro exI [of _ ?d'] conjI run f s c e n h)
qed

theorem clean_data_drops_incomplete_witness:
  "clean_data (sample_processor\<lparr>df := Some sample_incomplete\<rparr>, new_world) =
     (Inr \<lparr>columns = [''id'', ''email''], dtypes = [Int64, Object],
           rows = [[Num 1, Str ''a@x.com''], [Num 4, Str ''d@x.com'']]\<rparr>,
      (sample_processor\<lparr>df := Some
          \<lparr>columns = [''id'', ''email''], dtypes = [Int64, Object],
           rows = [[Num 1, Str ''a@x.com''], [Num 4, Str ''d@x.com'']]\<rparr>\<rparr>, new_world))"
proof -
  have "df (sample_processor\<lparr>df := Some sample_incomplete\<rparr>) = Some sample_incomplete"
    by simp
  from clean_data_drops_incomplete [OF this, of new_world]
  obtain d' where r: "clean_data (sample_processor\<lparr>df := Some sample_incomplete\<rparr>, new_world) =
        (Inr d', (sample_processor\<lparr>df := Some sample_incomplete, df := Some d'\<rparr>, new_world))"
    and f: "rows d' = filter (\<lambda>r. \<forall>c\<in>set r. c \<noteq> NaN) (rows (drop_duplicates sample_incomplete))"
    and h: "columns d' = columns sample_incomplete" "dtypes d' = dtypes sample_incomplete"
    by (elim exE conjE)
  have "rows d' = [[Num 1, Str ''a@x.com''], [Num 4, Str ''d@x.com'']]"
    unfolding f by (simp add: drop_duplicates_def sample_incomplete_def)
  then have "d' = \<lparr>columns = [''id'', ''email''], dtypes = [Int64, Object],
           rows = [[Num 1, Str ''a@x.com''], [Num 4, Str ''d@x.com'']]\<rparr>"
    using h by (cases d') (simp add: sample_incomplete_def)
  then show ?thesis unfolding r by simp
qed

section \<open>The pipeline\<close>

text \<open>
  Claim C2. When the input location holds the three sample rows and the output location
  can be written, \<open>process\<close> succeeds: the table it persists has exactly one row,
  \<open>id = 1\<close>, \<open>name = Alice\<close> (trimmed), \<open>email = a@x.com\<close>, with a
  \<open>processed_timestamp\<close> column added, and the result reports one row.
\<close>

theorem process_sample:
  assumes "pd_read_csv env (input_path p) = Inr sample_input"
    and "os_path_dirname env (output_path p) = Inr dir"
    and "os_makedirs env dir = None"
    and "to_csv env (output_path p) (sample_output (isoformat env (clock env (Suc (ticks w))))) = None"
  shows "process env (p, w) =
     (Success 1 (total_seconds (clock env (ticks w + 2) - clock env (ticks w))) (output_path p)
        (isoformat env (clock env (ticks w + 3))),
      (p\<lparr>df := Some (sample_output (isoformat env (clock env (Suc (ticks w)))))\<rparr>,
       \<lparr>ticks = ticks w + 4,
        effects = effects w @ [MakeDirs dir,
           WriteCsv (output_path p) (sample_output (isoformat env (clock env (Suc (ticks w)))))]\<rparr>))"
  using assms
  by (simp add: process_def process_try_def stage_defs Let_def normalize_sample has_null_def
      sample_output_def eval_nat_numeral)

theorem process_sample_witness:
  "process (sample_env sample_input) (sample_processor, new_world) =
     (Success 1 2 (JStr ''data/output.csv'') ''2024-01-01T00:00:03'',
      (sample_processor\<lparr>df := Some (sample_output ''2024-01-01T00:00:01'')\<rparr>,
       \<lparr>ticks = 4, effects = [MakeDirs (JStr ''data''),
           WriteCsv (JStr ''data/output.csv'') (sample_output ''2024-01-01T00:00:01'')]\<rparr>))"
  using process_sample [of "sample_env sample_input" sample_processor "JStr ''data''" new_world]
  by (simp add: sample_env_def sample_processor_def init_def new_world_def dirname_sample
      digits strip_stamp total_seconds_def sample_files_def)

text \<open>
  Claim C7. Whenever \<open>process\<close> succeeds, load, clean and normalize all succeeded, and
  the result carries the number of rows of the table the normalize stage produced, the
  difference between the clock reading taken after persisting and the one taken on
  entry (in seconds), and the configured output path.
\<close>

theorem process_success_result:
  assumes "process env (p, w) = (r, (p', w'))" and "is_success r"
  shows "\<exists>d0 s1 d1 s2 d p3 w3.
           read_csv env (p, snd (datetime_now env w)) = (Inr d0, s1) \<and>
           clean_data s1 = (Inr d1, s2) \<and>
           transform_data env s2 = (Inr d, (p3, w3)) \<and>
           r = Success (length (rows d))
                 (total_seconds (clock env (ticks w + 2) - clock env (ticks w)))
                 (output_path p)
                 (isoformat env (clock env (ticks w + 3)))"
proof -
  let ?w0 = "w\<lparr>ticks := Suc (ticks w)\<rparr>"
  from assms have pt: "process_try env (p, w) = (Inr r, (p', w'))"
    by (auto simp: process_def on_exception_def datetime_now_def split: prod.splits sum.splits)
  then obtain d0 s1 d1 s2 d s3 s4 u s5 where
    c: "read_csv env (p, ?w0) = (Inr d0, s1)" "clean_data s1 = (Inr d1, s2)"
       "transform_data env s2 = (Inr d, s3)" "validate_data s3 = (Inr True, s4)"
       "write_csv env s4 = (Inr u, s5)" "finish env (clock env (ticks w)) s5 = (Inr r, (p', w'))"
    by (auto simp: process_try_def bind_exn_def datetime_now_def split: prod.splits sum.splits if_splits)
  have s1: "s1 = (p\<lparr>df := Some d0\<rparr>, ?w0)"
    using read_csv_result [OF c(1)] by simp
  have s2: "s2 = (p\<lparr>df := Some d1\<rparr>, ?w0)"
    using c(2) unfolding s1 by (auto simp: clean_data_loaded)
  obtain p3 w3 where s3: "s3 = (p3, w3)" by (cases s3)
  have t: "df p3 = Some d" "effects w3 = effects w" "ticks w3 = ticks w + 2"
      "output_path p3 = output_path p"
    using transform_data_result [of env "p\<lparr>df := Some d1\<rparr>" ?w0 "Inr d" p3 w3] c(3)
    unfolding s2 s3 by simp_all
  have s4: "s4 = (p3, w3)"
    using c(4) unfolding s3 by (simp add: validate_data_loaded [OF t(1)])
  obtain p5 w5 where s5: "s5 = (p5, w5)" by (cases s5)
  have w: "p5 = p3" "ticks w5 = ticks w3"
    using write_csv_result [of env p3 w3 u p5 w5] c(5) unfolding s4 s5 by simp_all
  have r0: "read_csv env (p, snd (datetime_now env w)) = (Inr d0, s1)"
    using c(1) by (simp add: datetime_now_def)
  have "r = Success (length (rows d))
                 (total_seconds (clock env (ticks w + 2) - clock env (ticks w)))
                 (output_path p)
                 (isoformat env (clock env (ticks w + 3)))"
    using c(6) t w unfolding s5 by (simp add: finish_loaded [of p3 d] eval_nat_numeral)
  with r0 c(2) c(3) [unfolded s3] show ?thesis
    by blast
qed

theorem process_success_result_witness:
  "is_success (fst (process (sample_env sample_input) (sample_processor, new_world))) \<and>
   (\<exists>d0 s1 d1 s2 d p3 w3.
      read_csv (sample_env sample_input)
        (sample_processor, snd (datetime_now (sample_env sample_input) new_world)) = (Inr d0, s1) \<and>
      clean_data s1 = (Inr d1, s2) \<and>
      transform_data (sample_env sample_input) s2 = (Inr d, (p3, w3)) \<and>
      Success 1 2 (JStr ''data/output.csv'') ''2024-01-01T00:00:03'' =
        Success (length (rows d))
          (total_seconds (clock (sample_env sample_input) (ticks new_world + 2)
             - clock (sample_env sample_input) (ticks new_world)))
          (output_path sample_processor)
          (isoformat (sample_env sample_input) (clock (sample_env sample_input) (ticks new_world + 3))))"
proof -
  have "is_success (Success 1 2 (JStr ''data/output.csv'') ''2024-01-01T00:00:03'')"
    by simp
  from process_success_result [OF sample_run this] show ?thesis
    by (simp add: sample_run)
qed

text \<open>
  Claim C1. \<open>process\<close> returns a result in every case. When the load fails, or the
  normalize stage, the validation or the persist stage after the stages before it
  succeeded, \<open>process\<close> returns what the \<open>except\<close> clause builds from that failure and
  from the state the failing stage left: the failure dictionary with the message of the
  exception, the object and the written files as they were at the failure, so no later
  stage ran. The two cleaning stages cannot fail once the load succeeded. When no stage
  fails, \<open>process\<close> succeeds.
\<close>

theorem process_never_raises:
  fixes env :: "'p env" and p :: "'p DataProcessor" and w :: "'p world"
  defines "s0 \<equiv> (p, snd (datetime_now env w))"
  shows
   "(\<forall>e s1. read_csv env s0 = (Inl e, s1) \<longrightarrow> process env (p, w) = on_exception env e s1) \<and>
    (\<forall>d0 s1. read_csv env s0 = (Inr d0, s1) \<longrightarrow>
       (\<exists>d1 s2. clean_data s1 = (Inr d1, s2)) \<and>
       (\<forall>d1 s2. clean_data s1 = (Inr d1, s2) \<longrightarrow>
          (\<forall>e s3. transform_data env s2 = (Inl e, s3) \<longrightarrow>
             process env (p, w) = on_exception env e s3) \<and>
          (\<forall>d s3. transform_data env s2 = (Inr d, s3) \<longrightarrow>
             (fst (validate_data s3) = Inr False \<longrightarrow>
                process env (p, w) = on_exception env (ValueError ''Data validation failed'') s3) \<and>
             (fst (validate_data s3) = Inr True \<longrightarrow>
                (\<forall>e s5. write_csv env s3 = (Inl e, s5) \<longrightarrow>
                   process env (p, w) = on_exception env e s5) \<and>
                (\<forall>u s5. write_csv env s3 = (Inr u, s5) \<longrightarrow>
                   is_success (fst (process env (p, w)))))))) \<and>
    (\<forall>e p' w'. on_exception env e (p', w') =
       (Failed (str_exn e) (Some (isoformat env (clock env (ticks w')))),
        (p', w'\<lparr>ticks := Suc (ticks w')\<rparr>)))"
proof (intro conjI allI impI)
  fix e s1 assume "read_csv env s0 = (Inl e, s1)"
  then show "process env (p, w) = on_exception env e s1"
    by (simp add: s0_def process_def process_try_def bind_exn_def datetime_now_def)
next
  fix d0 s1 assume r: "read_csv env s0 = (Inr d0, s1)"
  then have s1: "s1 = (p\<lparr>df := Some d0\<rparr>, snd (datetime_now env w))"
    using read_csv_result [of env p "snd (datetime_now env w)" "Inr d0" s1] by (simp add: s0_def)
  show "\<exists>d1 s2. clean_data s1 = (Inr d1, s2)"
    unfolding s1 by (simp add: clean_data_loaded)
  fix d1 s2 assume c: "clean_data s1 = (Inr d1, s2)"
  have pre: "process_try env (p, w) =
     bind_exn (transform_data env s2) (\<lambda>_ s3.
           bind_exn (validate_data s3) (\<lambda>valid s4.
             if \<not> valid then (Inl (ValueError ''Data validation failed''), s4)
             else bind_exn (write_csv env s4) (\<lambda>_ s5. finish env (clock env (ticks w)) s5)))"
    using r c by (simp add: s0_def process_try_def bind_exn_def datetime_now_def)
  have s2: "df (fst s2) \<noteq> None"
    using c unfolding s1 by (auto simp: clean_data_loaded)
  { fix e s3 assume "transform_data env s2 = (Inl e, s3)"
    then show "process env (p, w) = on_exception env e s3"
      by (simp add: process_def pre bind_exn_def) }
  fix d s3 assume t: "transform_data env s2 = (Inr d, s3)"
  have s3: "df (fst s3) = Some d"
    using transform_data_result [of env "fst s2" "snd s2" "Inr d" "fst s3" "snd s3"] t s2 by simp
  have v: "validate_data s3 = (fst (validate_data s3), s3)"
    using validate_data_loaded [OF s3, of "snd s3"] by simp
  { assume "fst (validate_data s3) = Inr False"
    then show "process env (p, w) = on_exception env (ValueError ''Data validation failed'') s3"
      using v by (simp add: process_def pre bind_exn_def t split: prod.splits) }
  assume ok: "fst (validate_data s3) = Inr True"
  { fix e s5 assume "write_csv env s3 = (Inl e, s5)"
    then show "process env (p, w) = on_exception env e s5"
      using v ok by (simp add: process_def pre bind_exn_def t split: prod.splits) }
  fix u s5 assume wr: "write_csv env s3 = (Inr u, s5)"
  have "fst s5 = fst s3"
    using write_csv_result [of env "fst s3" "snd s3" u "fst s5" "snd s5"] wr by simp
  then have "df (fst s5) = Some d" using s3 by simp
  from finish_loaded [OF this, of env "clock env (ticks w)" "snd s5"]
  show "is_success (fst (process env (p, w)))"
    using v ok wr by (simp add: process_def pre bind_exn_def t split: prod.splits)
next
  fix e p' w'
  show "on_exception env e (p', w') =
       (Failed (str_exn e) (Some (isoformat env (clock env (ticks w')))),
        (p', w'\<lparr>ticks := Suc (ticks w')\<rparr>))"
    by (simp add: on_exception_def datetime_now_def)
qed

text \<open>A run on a missing input: the load raises and \<open>process\<close> reports its message.\<close>

theorem process_never_raises_witness:
  "process (sample_env sample_input) (init (JStr ''data/missing.csv'') (JStr ''data/output.csv''), new_world) =
     (Failed (''[Errno 2] No such file or directory: '' @ quoted ''data/missing.csv'')
        (Some ''2024-01-01T00:00:01''),
      (init (JStr ''data/missing.csv'') (JStr ''data/output.csv''), \<lparr>ticks = 2, effects = []\<rparr>))"
proof -
  let ?env = "sample_env sample_input"
  let ?p = "init (JStr ''data/missing.csv'') (JStr ''data/output.csv'')"
  let ?e = "FileNotFoundError (''[Errno 2] No such file or directory: '' @ quoted ''data/missing.csv'')"
  let ?s1 = "(?p, \<lparr>ticks = 1, effects = []\<rparr>) :: json state"
  have rd: "read_csv ?env (?p, snd (datetime_now ?env new_world)) = (Inl ?e, ?s1)"
    by (simp add: read_csv_def datetime_now_def sample_env_def init_def new_world_def)
  from process_never_raises [of ?env ?p new_world]
  have "process ?env (?p, new_world) = on_exception ?env ?e ?s1"
    and "on_exception ?env ?e ?s1 =
       (Failed (str_exn ?e) (Some (isoformat ?env (clock ?env (ticks (snd ?s1))))),
        (?p, (snd ?s1)\<lparr>ticks := Suc (ticks (snd ?s1))\<rparr>))"
    using rd by auto
  then show ?thesis
    by (simp add: sample_env_def digits)
qed

text \<open>
  Claim C5. For the table the normalize stage hands to the validation, the validation
  answers false exactly when the table has no row or some cell is absent, and true
  otherwise; when it answers false, \<open>process\<close> returns the failure dictionary with the
  message of the validation error and has written nothing.
\<close>

theorem validation_gate:
  assumes "read_csv env (p, snd (datetime_now env w)) = (Inr d0, s1)"
    and "clean_data s1 = (Inr d1, s2)"
    and "transform_data env s2 = (Inr d, s3)"
  shows "(fst (validate_data s3) = Inr False) = (rows d = [] \<or> (\<exists>r\<in>set (rows d). NaN \<in> set r)) \<and>
         (fst (validate_data s3) = Inr True) = (\<not> (rows d = [] \<or> (\<exists>r\<in>set (rows d). NaN \<in> set r))) \<and>
         (rows d = [] \<or> (\<exists>r\<in>set (rows d). NaN \<in> set r) \<longrightarrow>
            fst (process env (p, w)) =
              Failed ''Data validation failed'' (Some (isoformat env (clock env (ticks (snd s3))))) \<and>
            fst (snd (process env (p, w))) = fst s3 \<and>
            effects (snd (snd (process env (p, w)))) = effects w)"
proof -
  let ?w0 = "snd (datetime_now env w)"
  have s1: "s1 = (p\<lparr>df := Some d0\<rparr>, ?w0)"
    using read_csv_result [OF assms(1)] by simp
  have s2: "s2 = (p\<lparr>df := Some d1\<rparr>, ?w0)"
    using assms(2) unfolding s1 by (auto simp: clean_data_loaded)
  have t: "df (fst s3) = Some d" "effects (snd s3) = effects w"
    using transform_data_result [of env "p\<lparr>df := Some d1\<rparr>" ?w0 "Inr d" "fst s3" "snd s3"] assms(3)
    unfolding s2 by (simp_all add: datetime_now_def)
  have v: "validate_data s3 =
      (Inr (\<not> (rows d = [] \<or> (\<exists>r\<in>set (rows d). NaN \<in> set r))), s3)"
    using validate_data_loaded [OF t(1), of "snd s3"] by simp
  have a: "(fst (validate_data s3) = Inr False) = (rows d = [] \<or> (\<exists>r\<in>set (rows d). NaN \<in> set r))"
    unfolding v by simp
  have b: "(fst (validate_data s3) = Inr True) = (\<not> (rows d = [] \<or> (\<exists>r\<in>set (rows d). NaN \<in> set r)))"
    unfolding v by simp
  have c: "process env (p, w) = on_exception env (ValueError ''Data validation failed'') s3"
    if "rows d = [] \<or> (\<exists>r\<in>set (rows d). NaN \<in> set r)"
    using that assms v
    by (simp add: process_def process_try_def bind_exn_def datetime_now_def)
  have "fst (process env (p, w)) =
              Failed ''Data validation failed'' (Some (isoformat env (clock env (ticks (snd s3))))) \<and>
            fst (snd (process env (p, w))) = fst s3 \<and>
            effects (snd (snd (process env (p, w)))) = effects w"
    if "rows d = [] \<or> (\<exists>r\<in>set (rows d). NaN \<in> set r)"
    using c [OF that] t(2)
    by (simp add: on_exception_def datetime_now_def split: prod.splits)
  with a b show ?thesis by blast
qed

text \<open>A run whose only row is incomplete: the table is empty at the validation.\<close>

lemma normalize_emptied:
  "strip_columns
     (object_columns (lower_columns (setitem_scalar ''processed_timestamp'' ts
        (dropna (drop_duplicates sample_all_incomplete)))))
     (lower_columns (setitem_scalar ''processed_timestamp'' ts
        (dropna (drop_duplicates sample_all_incomplete))))
   = (None, sample_emptied)"
  by (simp add: sample_all_incomplete_def dropna_def drop_duplicates_def
      setitem_scalar_def lower_columns_def lower_samples object_columns_def
      str_accessor_error_def column_values_def strip_column_def set_named_def sample_emptied_def)

theorem validation_gate_witness:
  "fst (process (sample_env sample_all_incomplete) (sample_processor, new_world)) =
     Failed ''Data validation failed'' (Some ''2024-01-01T00:00:02'') \<and>
   df (fst (snd (process (sample_env sample_all_incomplete) (sample_processor, new_world)))) =
     Some sample_emptied \<and>
   effects (snd (snd (process (sample_env sample_all_incomplete) (sample_processor, new_world)))) = []"
proof -
  let ?env = "sample_env sample_all_incomplete"
  let ?w0 = "\<lparr>ticks = 1, effects = []\<rparr> :: json world"
  let ?d1 = "dropna (drop_duplicates sample_all_incomplete)"
  let ?s1 = "(sample_processor\<lparr>df := Some sample_all_incomplete\<rparr>, ?w0)"
  let ?s2 = "(sample_processor\<lparr>df := Some ?d1\<rparr>, ?w0)"
  let ?s3 = "(sample_processor\<lparr>df := Some sample_emptied\<rparr>, \<lparr>ticks = 2, effects = []\<rparr> :: json world)"
  have r: "read_csv ?env (sample_processor, snd (datetime_now ?env new_world)) =
      (Inr sample_all_incomplete, ?s1)"
    by (simp add: read_csv_def datetime_now_def sample_env_def sample_processor_def init_def
        new_world_def)
  have c: "clean_data ?s1 = (Inr ?d1, ?s2)"
    by (simp add: clean_data_loaded)
  have t: "transform_data ?env ?s2 = (Inr sample_emptied, ?s3)"
    by (simp add: transform_data_def datetime_now_def Let_def normalize_emptied)
  have e: "rows sample_emptied = [] \<or> (\<exists>r\<in>set (rows sample_emptied). NaN \<in> set r)"
    by (simp add: sample_emptied_def)
  from validation_gate [OF r c t] e show ?thesis
    by (simp add: sample_env_def digits new_world_def)
qed

lemma write_csv_error:
  "df p = Some d \<Longrightarrow> write_csv env (p, w) = (Inl e, s5) \<Longrightarrow>
     os_path_dirname env (output_path p) = Inl e \<or>
     (\<exists>dir. os_makedirs env dir = Some e) \<or>
     to_csv env (output_path p) d = Some e"
  by (auto simp: write_csv_def Let_def split: sum.splits option.splits)

text \<open>
  Claim C10. Each of \<open>clean_data\<close>, \<open>transform_data\<close>, \<open>validate_data\<close> and
  \<open>write_csv\<close> raises \<open>ValueError\<close> on an object that holds no table and leaves the
  object and the world as they were. \<open>process\<close> never meets that guard, whatever
  the object held before: it runs \<open>read_csv\<close> first; when the load fails it ends with
  the error of the load, having run no other stage; when the load succeeds the object
  holds the table read, and each state on which \<open>process\<close> then runs the cleaning,
  the normalization, the validation and the persisting holds a table. So the cleaning
  and the validation return a value, a failure of the normalization is an
  \<open>AttributeError\<close>, a failure of the persisting is the error of the operating system
  or of the writer, and the outcome of \<open>process\<close> is the one of these stages.
\<close>

theorem unloaded_guards:
  fixes env :: "'p env" and p :: "'p DataProcessor" and w :: "'p world"
  defines "s0 \<equiv> (p, snd (datetime_now env w))"
  shows
   "(df p = None \<longrightarrow>
      clean_data (p, w) = (Inl (ValueError ''No data loaded. Call read_csv() first.''), (p, w)) \<and>
      transform_data env (p, w) = (Inl (ValueError ''No data loaded. Call read_csv() first.''), (p, w)) \<and>
      validate_data (p, w) = (Inl (ValueError ''No data loaded.''), (p, w)) \<and>
      write_csv env (p, w) = (Inl (ValueError ''No data to write.''), (p, w))) \<and>
    (\<forall>e s1. read_csv env s0 = (Inl e, s1) \<longrightarrow> process env (p, w) = on_exception env e s1) \<and>
    (\<forall>d0 s1. read_csv env s0 = (Inr d0, s1) \<longrightarrow>
       df (fst s1) = Some d0 \<and>
       (\<exists>d1 s2. clean_data s1 = (Inr d1, s2) \<and> df (fst s2) = Some d1 \<and>
          (\<forall>e s3. transform_data env s2 = (Inl e, s3) \<longrightarrow>
             (\<exists>m. e = AttributeError m) \<and> process env (p, w) = on_exception env e s3) \<and>
          (\<forall>d s3. transform_data env s2 = (Inr d, s3) \<longrightarrow>
             df (fst s3) = Some d \<and>
             (\<exists>valid. validate_data s3 = (Inr valid, s3) \<and>
                (\<not> valid \<longrightarrow>
                   process env (p, w) =
                     on_exception env (ValueError ''Data validation failed'') s3) \<and>
                (valid \<longrightarrow>
                   (\<forall>e s5. write_csv env s3 = (Inl e, s5) \<longrightarrow>
                      (os_path_dirname env (output_path (fst s3)) = Inl e \<or>
                       (\<exists>dir. os_makedirs env dir = Some e) \<or>
                       to_csv env (output_path (fst s3)) d = Some e) \<and>
                      process env (p, w) = on_exception env e s5) \<and>
                   (\<forall>u s5. write_csv env s3 = (Inr u, s5) \<longrightarrow>
                      is_success (fst (process env (p, w)))))))))"
proof (intro conjI)
  show "df p = None \<longrightarrow>
      clean_data (p, w) = (Inl (ValueError ''No data loaded. Call read_csv() first.''), (p, w)) \<and>
      transform_data env (p, w) = (Inl (ValueError ''No data loaded. Call read_csv() first.''), (p, w)) \<and>
      validate_data (p, w) = (Inl (ValueError ''No data loaded.''), (p, w)) \<and>
      write_csv env (p, w) = (Inl (ValueError ''No data to write.''), (p, w))"
    by (simp add: clean_data_def transform_data_def validate_data_def write_csv_def)
next
  show "\<forall>e s1. read_csv env s0 = (Inl e, s1) \<longrightarrow> process env (p, w) = on_exception env e s1"
    by (simp add: s0_def process_def process_try_def bind_exn_def datetime_now_def)
next
  show "\<forall>d0 s1. read_csv env s0 = (Inr d0, s1) \<longrightarrow>
       df (fst s1) = Some d0 \<and>
       (\<exists>d1 s2. clean_data s1 = (Inr d1, s2) \<and> df (fst s2) = Some d1 \<and>
          (\<forall>e s3. transform_data env s2 = (Inl e, s3) \<longrightarrow>
             (\<exists>m. e = AttributeError m) \<and> process env (p, w) = on_exception env e s3) \<and>
          (\<forall>d s3. transform_data env s2 = (Inr d, s3) \<longrightarrow>
             df (fst s3) = Some d \<and>
             (\<exists>valid. validate_data s3 = (Inr valid, s3) \<and>
                (\<not> valid \<longrightarrow>
                   process env (p, w) =
                     on_exception env (ValueError ''Data validation failed'') s3) \<and>
                (valid \<longrightarrow>
                   (\<forall>e s5. write_csv env s3 = (Inl e, s5) \<longrightarrow>
                      (os_path_dirname env (output_path (fst s3)) = Inl e \<or>
                       (\<exists>dir. os_makedirs env dir = Some e) \<or>
                       to_csv env (output_path (fst s3)) d = Some e) \<and>
                      process env (p, w) = on_exception env e s5) \<and>
                   (\<forall>u s5. write_csv env s3 = (Inr u, s5) \<longrightarrow>
                      is_success (fst (process env (p, w))))))))"
  proof (intro allI impI)
    fix d0 s1 assume r: "read_csv env s0 = (Inr d0, s1)"
    let ?w0 = "snd (datetime_now env w)"
    let ?d1 = "dropna (drop_duplicates d0)"
    let ?s2 = "(p\<lparr>df := Some ?d1\<rparr>, ?w0)"
    have s1: "s1 = (p\<lparr>df := Some d0\<rparr>, ?w0)"
      using r read_csv_result [of env p ?w0 "Inr d0" s1] by (simp add: s0_def)
    have l1: "df (fst s1) = Some d0"
      unfolding s1 by simp
    have c: "clean_data s1 = (Inr ?d1, ?s2)"
      unfolding s1 by (simp add: clean_data_loaded)
    have l2: "df (fst ?s2) = Some ?d1"
      by simp
    have pre: "process_try env (p, w) =
       bind_exn (transform_data env ?s2) (\<lambda>_ s3.
             bind_exn (validate_data s3) (\<lambda>valid s4.
               if \<not> valid then (Inl (ValueError ''Data validation failed''), s4)
               else bind_exn (write_csv env s4) (\<lambda>_ s5. finish env (clock env (ticks w)) s5)))"
      using r c by (simp add: s0_def process_try_def bind_exn_def datetime_now_def)
    have te: "(\<exists>m. e = AttributeError m) \<and> process env (p, w) = on_exception env e s3"
      if t: "transform_data env ?s2 = (Inl e, s3)" for e s3
    proof -
      have "transform_data env (p\<lparr>df := Some ?d1\<rparr>, ?w0) = (Inl e, (fst s3, snd s3))"
        using t by simp
      from transform_data_result [OF this] have "\<exists>m. e = AttributeError m"
        by simp
      moreover have "process env (p, w) = on_exception env e s3"
        using t by (simp add: process_def pre bind_exn_def)
      ultimately show ?thesis by simp
    qed
    have ts: "df (fst s3) = Some d \<and>
             (\<exists>valid. validate_data s3 = (Inr valid, s3) \<and>
                (\<not> valid \<longrightarrow>
                   process env (p, w) =
                     on_exception env (ValueError ''Data validation failed'') s3) \<and>
                (valid \<longrightarrow>
                   (\<forall>e s5. write_csv env s3 = (Inl e, s5) \<longrightarrow>
                      (os_path_dirname env (output_path (fst s3)) = Inl e \<or>
                       (\<exists>dir. os_makedirs env dir = Some e) \<or>
                       to_csv env (output_path (fst s3)) d = Some e) \<and>
                      process env (p, w) = on_exception env e s5) \<and>
                   (\<forall>u s5. write_csv env s3 = (Inr u, s5) \<longrightarrow>
                      is_success (fst (process env (p, w))))))"
      if t: "transform_data env ?s2 = (Inr d, s3)" for d s3
    proof -
      let ?valid = "\<not> (rows d = [] \<or> (\<exists>r\<in>set (rows d). NaN \<in> set r))"
      have "transform_data env (p\<lparr>df := Some ?d1\<rparr>, ?w0) = (Inr d, (fst s3, snd s3))"
        using t by simp
      from transform_data_result [OF this] have l3: "df (fst s3) = Some d"
        by simp
      have v: "validate_data s3 = (Inr ?valid, s3)"
        using validate_data_loaded [OF l3, of "snd s3"] by simp
      have nv: "process env (p, w) = on_exception env (ValueError ''Data validation failed'') s3"
        if "\<not> ?valid"
        using that v by (simp add: process_def pre bind_exn_def t)
      have we: "(os_path_dirname env (output_path (fst s3)) = Inl e \<or>
                       (\<exists>dir. os_makedirs env dir = Some e) \<or>
                       to_csv env (output_path (fst s3)) d = Some e) \<and>
                      process env (p, w) = on_exception env e s5"
        if "?valid" and wr: "write_csv env s3 = (Inl e, s5)" for e s5
      proof -
        have "write_csv env (fst s3, snd s3) = (Inl e, s5)" using wr by simp
        from write_csv_error [OF l3 this]
        have "os_path_dirname env (output_path (fst s3)) = Inl e \<or>
                       (\<exists>dir. os_makedirs env dir = Some e) \<or>
                       to_csv env (output_path (fst s3)) d = Some e" .
        moreover have "process env (p, w) = on_exception env e s5"
          using that(1) v wr by (simp add: process_def pre bind_exn_def t)
        ultimately show ?thesis by simp
      qed
      have ws: "is_success (fst (process env (p, w)))"
        if "?valid" and wr: "write_csv env s3 = (Inr u, s5)" for u s5
      proof -
        have "fst s5 = fst s3"
          using write_csv_result [of env "fst s3" "snd s3" u "fst s5" "snd s5"] wr by simp
        then have "df (fst s5) = Some d" using l3 by simp
        from finish_loaded [OF this, of env "clock env (ticks w)" "snd s5"]
        show ?thesis
          using that(1) v wr by (simp add: process_def pre bind_exn_def t)
      qed
      show ?thesis
        using l3 v nv we ws by blast
    qed
    show "df (fst s1) = Some d0 \<and>
       (\<exists>d1 s2. clean_data s1 = (Inr d1, s2) \<and> df (fst s2) = Some d1 \<and>
          (\<forall>e s3. transform_data env s2 = (Inl e, s3) \<longrightarrow>
             (\<exists>m. e = AttributeError m) \<and> process env (p, w) = on_exception env e s3) \<and>
          (\<forall>d s3. transform_data env s2 = (Inr d, s3) \<longrightarrow>
             df (fst s3) = Some d \<and>
             (\<exists>valid. validate_data s3 = (Inr valid, s3) \<and>
                (\<not> valid \<longrightarrow>
                   process env (p, w) =
                     on_exception env (ValueError ''Data validation failed'') s3) \<and>
                (valid \<longrightarrow>
                   (\<forall>e s5. write_csv env s3 = (Inl e, s5) \<longrightarrow>
                      (os_path_dirname env (output_path (fst s3)) = Inl e \<or>
                       (\<exists>dir. os_makedirs env dir = Some e) \<or>
                       to_csv env (output_path (fst s3)) d = Some e) \<and>
                      process env (p, w) = on_exception env e s5) \<and>
                   (\<forall>u s5. write_csv env s3 = (Inr u, s5) \<longrightarrow>
                      is_success (fst (process env (p, w))))))))"
      by (intro conjI l1 exI [of _ ?d1] exI [of _ ?s2] c l2 allI impI te ts)
  qed
qed

text \<open>
  The sample object holds no table before the run: each stage alone raises on it, and
  the load inside \<open>process\<close> stores the table of the input file.
\<close>

theorem unloaded_guards_witness:
  "df sample_processor = None \<and>
   clean_data (sample_processor, new_world) =
     (Inl (ValueError ''No data loaded. Call read_csv() first.''), (sample_processor, new_world)) \<and>
   transform_data (sample_env sample_input) (sample_processor, new_world) =
     (Inl (ValueError ''No data loaded. Call read_csv() first.''), (sample_processor, new_world)) \<and>
   validate_data (sample_processor, new_world) =
     (Inl (ValueError ''No data loaded.''), (sample_processor, new_world)) \<and>
   write_csv (sample_env sample_input) (sample_processor, new_world) =
     (Inl (ValueError ''No data to write.''), (sample_processor, new_world)) \<and>
   df (fst (snd (read_csv (sample_env sample_input)
        (sample_processor, snd (datetime_now (sample_env sample_input) new_world))))) =
     Some sample_input"
proof -
  let ?env = "sample_env sample_input"
  let ?s1 = "(sample_processor\<lparr>df := Some sample_input\<rparr>, \<lparr>ticks = 1, effects = []\<rparr> :: json world)"
  have n: "df sample_processor = None"
    by (simp add: sample_processor_def init_def)
  have r: "read_csv ?env (sample_processor, snd (datetime_now ?env new_world)) =
      (Inr sample_input, ?s1)"
    by (simp add: read_csv_def datetime_now_def sample_env_def sample_processor_def init_def
        new_world_def)
  note th = unloaded_guards [of sample_processor new_world ?env]
  have g: "clean_data (sample_processor, new_world) =
        (Inl (ValueError ''No data loaded. Call read_csv() first.''), (sample_processor, new_world)) \<and>
      transform_data ?env (sample_processor, new_world) =
        (Inl (ValueError ''No data loaded. Call read_csv() first.''), (sample_processor, new_world)) \<and>
      validate_data (sample_processor, new_world) =
        (Inl (ValueError ''No data loaded.''), (sample_processor, new_world)) \<and>
      write_csv ?env (sample_processor, new_world) =
        (Inl (ValueError ''No data to write.''), (sample_processor, new_world))"
    by (rule th [THEN conjunct1, THEN mp, OF n])
  have "df (fst ?s1) = Some sample_input"
    by (rule th [THEN conjunct2, THEN conjunct2, THEN spec, THEN spec, THEN mp, OF r,
          THEN conjunct1])
  then have "df (fst (snd (read_csv ?env (sample_processor, snd (datetime_now ?env new_world))))) =
     Some sample_input"
    unfolding r by simp
  with n g show ?thesis by simp
qed

section \<open>The orchestrator's runs\<close>

text \<open>No stage writes an execution log or turns the clock back.\<close>

lemma later_world_refl: "later_world w w"
  by (simp add: later_world_def)

lemma later_world_trans: "later_world w w1 \<Longrightarrow> later_world w1 w2 \<Longrightarrow> later_world w w2"
  by (simp add: later_world_def)

lemma bind_exn_later:
  assumes "later_world w (snd (snd m))"
    and "\<And>x p1 w1. later_world w1 (snd (snd (f x (p1, w1))))"
  shows "later_world w (snd (snd (bind_exn m f)))"
proof -
  obtain r p1 w1 where m: "m = (r, (p1, w1))" by (cases m) auto
  show ?thesis
  proof (cases r)
    case (Inl e)
    with assms(1) m show ?thesis by (simp add: bind_exn_def)
  next
    case (Inr x)
    have "later_world w w1" using assms(1) m by simp
    from later_world_trans [OF this assms(2) [of w1 x p1]]
    show ?thesis using m Inr by (simp add: bind_exn_def)
  qed
qed

lemma read_csv_later: "later_world w (snd (snd (read_csv env (p, w))))"
  by (simp add: read_csv_def later_world_def split: sum.splits)

lemma clean_data_later: "later_world w (snd (snd (clean_data (p, w))))"
  by (simp add: clean_data_def later_world_def Let_def split: option.splits)

lemma transform_data_later: "later_world w (snd (snd (transform_data env (p, w))))"
  by (simp add: transform_data_def later_world_def logs_written_def datetime_now_def Let_def
      split: option.splits prod.splits)

lemma validate_data_later: "later_world w (snd (snd (validate_data (p, w))))"
  by (simp add: validate_data_def later_world_def split: option.splits)

lemma write_csv_later: "later_world w (snd (snd (write_csv env (p, w))))"
  by (simp add: write_csv_def later_world_def logs_written_def emit_def Let_def
      split: option.splits sum.splits)

lemma finish_later: "later_world w (snd (snd (finish env t (p, w))))"
  by (simp add: finish_def later_world_def logs_written_def datetime_now_def
      split: option.splits)

lemma process_try_later:
  "later_world (w\<lparr>ticks := Suc (ticks w)\<rparr>) (snd (snd (process_try env (p, w))))"
  unfolding process_try_def
  by (simp add: datetime_now_def)
     (intro bind_exn_later read_csv_later clean_data_later transform_data_later
        validate_data_later; simp add: later_world_refl bind_exn_later write_csv_later finish_later)

lemma process_world:
  "logs_written (snd (snd (process env (p, w)))) = logs_written w \<and>
   ticks w < ticks (snd (snd (process env (p, w))))"
proof -
  obtain r p1 w1 where t: "process_try env (p, w) = (r, (p1, w1))"
    by (cases "process_try env (p, w)") auto
  have l: "logs_written w1 = logs_written w" "ticks w < ticks w1"
    using process_try_later [of w env p] t by (simp_all add: later_world_def logs_written_def)
  show ?thesis
    using l t
    by (cases r) (simp_all add: process_def on_exception_def datetime_now_def logs_written_def)
qed

text \<open>
  Claim C9. When the configuration cannot be read, or it lacks \<open>input_path\<close> (or
  \<open>output_path\<close>), the orchestrator returns the failure dictionary with the message of
  the error and leaves the world as it was: no log is written, and the pipeline was not
  invoked, since an invocation always reads the clock.
\<close>

theorem config_failures:
  "(\<forall>e. load_config oenv path = Inl e \<longrightarrow>
      run_pipeline oenv w path = (Failed (str_exn e) None, w)) \<and>
   (\<forall>config e. load_config oenv path = Inr config \<and> getitem config ''input_path'' = Inl e \<longrightarrow>
      run_pipeline oenv w path = (Failed (str_exn e) None, w)) \<and>
   (\<forall>config inp e. load_config oenv path = Inr config \<and> getitem config ''input_path'' = Inr inp \<and>
      getitem config ''output_path'' = Inl e \<longrightarrow>
      run_pipeline oenv w path = (Failed (str_exn e) None, w)) \<and>
   (\<forall>kvs. load_config oenv path = Inr (JObj kvs) \<and> map_of kvs ''input_path'' = None \<longrightarrow>
      run_pipeline oenv w path = (Failed (quoted ''input_path'') None, w)) \<and>
   (\<forall>p. snd (snd (process (base oenv) (p, w))) \<noteq> w)"
proof (intro conjI allI impI)
  fix e assume "load_config oenv path = Inl e"
  then show "run_pipeline oenv w path = (Failed (str_exn e) None, w)"
    by (simp add: run_pipeline_def run_pipeline_try_def bind_exn_def pure_def)
next
  fix config e
  assume "load_config oenv path = Inr config \<and> getitem config ''input_path'' = Inl e"
  then show "run_pipeline oenv w path = (Failed (str_exn e) None, w)"
    by (simp add: run_pipeline_def run_pipeline_try_def bind_exn_def pure_def)
next
  fix config inp e
  assume "load_config oenv path = Inr config \<and> getitem config ''input_path'' = Inr inp \<and>
      getitem config ''output_path'' = Inl e"
  then show "run_pipeline oenv w path = (Failed (str_exn e) None, w)"
    by (simp add: run_pipeline_def run_pipeline_try_def bind_exn_def pure_def)
next
  fix kvs
  assume "load_config oenv path = Inr (JObj kvs) \<and> map_of kvs ''input_path'' = None"
  then show "run_pipeline oenv w path = (Failed (quoted ''input_path'') None, w)"
    by (simp add: run_pipeline_def run_pipeline_try_def bind_exn_def pure_def)
next
  fix p
  show "snd (snd (process (base oenv) (p, w))) \<noteq> w"
    using process_world [of "base oenv" p w] by auto
qed

theorem config_failures_witness:
  "run_pipeline (sample_orchestrator_env sample_input config_without_input) new_world
      ''config/pipeline_config.json'' = (Failed (quoted ''input_path'') None, new_world) \<and>
   run_pipeline (sample_orchestrator_env sample_input config_without_input) new_world
      ''config/absent.json'' =
     (Failed (''[Errno 2] No such file or directory: '' @ quoted ''config/absent.json'') None,
      new_world)"
proof -
  let ?oenv = "sample_orchestrator_env sample_input config_without_input"
  have a: "load_config ?oenv ''config/pipeline_config.json'' =
        Inr (JObj [(''pipeline_name'', JStr ''adf-python-pipeline''),
                   (''output_path'', JStr ''data/output.csv'')]) \<and>
      map_of [(''pipeline_name'', JStr ''adf-python-pipeline''),
              (''output_path'', JStr ''data/output.csv'')] ''input_path'' = None"
    by (simp add: sample_orchestrator_env_def config_without_input_def)
  have b: "load_config ?oenv ''config/absent.json'' =
      Inl (FileNotFoundError (''[Errno 2] No such file or directory: '' @ quoted ''config/absent.json''))"
    by (simp add: sample_orchestrator_env_def)
  from config_failures [of ?oenv "''config/pipeline_config.json''" new_world] a
  have "run_pipeline ?oenv new_world ''config/pipeline_config.json'' =
      (Failed (quoted ''input_path'') None, new_world)"
    by blast
  moreover from config_failures [of ?oenv "''config/absent.json''" new_world] b
  have "run_pipeline ?oenv new_world ''config/absent.json'' =
     (Failed (''[Errno 2] No such file or directory: '' @ quoted ''config/absent.json'') None,
      new_world)"
    by auto
  ultimately show ?thesis by simp
qed

text \<open>
  A valid run whose \<open>log_path\<close> names a regular file: the pipeline succeeds and writes
  its output, creating the log directory raises \<open>FileExistsError\<close>, and the
  orchestrator returns that failure instead of the pipeline's result; no execution log
  is written.
\<close>

lemma sample_run_result:
  "process (sample_env sample_input)
     (init (JStr ''data/input.csv'') (JStr ''data/output.csv''), new_world) =
     (Success 1 2 (JStr ''data/output.csv'') ''2024-01-01T00:00:03'',
      (sample_processor\<lparr>df := Some (sample_output ''2024-01-01T00:00:01'')\<rparr>,
       \<lparr>ticks = 4, effects = [MakeDirs (JStr ''data''),
           WriteCsv (JStr ''data/output.csv'') (sample_output ''2024-01-01T00:00:01'')]\<rparr>))"
  using sample_run by (simp add: sample_processor_def)

theorem log_failure_replaces_result:
  "load_config (sample_orchestrator_env sample_input config_log_path_is_file)
      ''config/pipeline_config.json'' = Inr config_log_path_is_file \<and>
   fst (process (sample_env sample_input)
          (init (JStr ''data/input.csv'') (JStr ''data/output.csv''), new_world)) =
     Success 1 2 (JStr ''data/output.csv'') ''2024-01-01T00:00:03'' \<and>
   fst (run_pipeline (sample_orchestrator_env sample_input config_log_path_is_file) new_world
          ''config/pipeline_config.json'') =
     Failed (''[Errno 17] File exists: '' @ quoted ''config/pipeline_config.json'') None \<and>
   logs_written (snd (run_pipeline (sample_orchestrator_env sample_input config_log_path_is_file)
          new_world ''config/pipeline_config.json'')) = []"
  by (simp add: run_pipeline_def run_pipeline_try_def save_log_def bind_exn_def pure_def
      sample_orchestrator_env_def config_log_path_is_file_def sample_run_result
      datetime_now_def logs_written_def)
     (simp add: sample_env_def sample_files_def)

text \<open>
  Claim C8, amended. For every run whose configuration is read and holds both paths,
  and in which creating the log directory, joining the log file name and writing the log
  file succeed, the orchestrator returns the pipeline's result unchanged and writes
  exactly one execution log: the file \<open>execution_<timestamp>.json\<close> under the
  configured or default log directory, whose \<open>result\<close> field is that same result.
\<close>

theorem run_pipeline_logs_result:
  assumes "load_config oenv path = Inr config"
    and "getitem config ''input_path'' = Inr inp"
    and "getitem config ''output_path'' = Inr outp"
    and "process (base oenv) (init inp outp, w) = (res, (p1, w1))"
    and "dict_get config ''pipeline_name'' (JStr ''default'') = Inr name"
    and "dict_get config ''log_path'' (JStr ''logs'') = Inr log_dir"
    and "os_makedirs (base oenv) log_dir = None"
    and "os_path_join log_dir
           (''execution_'' @ strftime (base oenv) (clock (base oenv) (Suc (ticks w1))) @ ''.json'')
         = Inr log_file"
    and "write_log oenv log_file
           \<lparr>pipeline_name = name,
            execution_time = isoformat (base oenv) (clock (base oenv) (ticks w1)),
            result = res\<rparr> = None"
  shows "run_pipeline oenv w path =
           (res, \<lparr>ticks = ticks w1 + 2,
                  effects = effects w1 @
                    [MakeDirs log_dir,
                     WriteLog log_file
                       \<lparr>pipeline_name = name,
                        execution_time = isoformat (base oenv) (clock (base oenv) (ticks w1)),
                        result = res\<rparr>]\<rparr>) \<and>
         logs_written (snd (run_pipeline oenv w path)) =
           logs_written w @
             [WriteLog log_file
                \<lparr>pipeline_name = name,
                 execution_time = isoformat (base oenv) (clock (base oenv) (ticks w1)),
                 result = res\<rparr>]"
proof -
  have run: "run_pipeline oenv w path =
           (res, \<lparr>ticks = ticks w1 + 2,
                  effects = effects w1 @
                    [MakeDirs log_dir,
                     WriteLog log_file
                       \<lparr>pipeline_name = name,
                        execution_time = isoformat (base oenv) (clock (base oenv) (ticks w1)),
                        result = res\<rparr>]\<rparr>)"
    using assms
    by (simp add: run_pipeline_def run_pipeline_try_def save_log_def bind_exn_def pure_def
        datetime_now_def emit_def)
  have "logs_written w1 = logs_written w"
    using process_world [of "base oenv" "init inp outp" w] assms(4) by simp
  then show ?thesis
    unfolding run by (simp add: logs_written_def)
qed

theorem run_pipeline_logs_result_witness:
  "run_pipeline (sample_orchestrator_env sample_input sample_config) new_world
      ''config/pipeline_config.json'' =
     (Success 1 2 (JStr ''data/output.csv'') ''2024-01-01T00:00:03'',
      \<lparr>ticks = 6,
       effects =
         [MakeDirs (JStr ''data''),
          WriteCsv (JStr ''data/output.csv'') (sample_output ''2024-01-01T00:00:01''),
          MakeDirs (JStr ''logs''),
          WriteLog (JStr ''logs/execution_20240101_000005.json'')
            \<lparr>pipeline_name = JStr ''adf-python-pipeline'',
             execution_time = ''2024-01-01T00:00:04'',
             result = Success 1 2 (JStr ''data/output.csv'') ''2024-01-01T00:00:03''\<rparr>]\<rparr>)"
proof -
  let ?oenv = "sample_orchestrator_env sample_input sample_config"
  have b: "base ?oenv = sample_env sample_input"
    by (simp add: sample_orchestrator_env_def)
  have 1: "load_config ?oenv ''config/pipeline_config.json'' = Inr sample_config"
    by (simp add: sample_orchestrator_env_def)
  have 2: "getitem sample_config ''input_path'' = Inr (JStr ''data/input.csv'')"
    by (simp add: sample_config_def)
  have 3: "getitem sample_config ''output_path'' = Inr (JStr ''data/output.csv'')"
    by (simp add: sample_config_def)
  have 4: "process (base ?oenv) (init (JStr ''data/input.csv'') (JStr ''data/output.csv''), new_world) =
     (Success 1 2 (JStr ''data/output.csv'') ''2024-01-01T00:00:03'',
      (sample_processor\<lparr>df := Some (sample_output ''2024-01-01T00:00:01'')\<rparr>,
       \<lparr>ticks = 4, effects = [MakeDirs (JStr ''data''),
           WriteCsv (JStr ''data/output.csv'') (sample_output ''2024-01-01T00:00:01'')]\<rparr>))"
    unfolding b by (rule sample_run_result)
  have 5: "dict_get sample_config ''pipeline_name'' (JStr ''default'') = Inr (JStr ''adf-python-pipeline'')"
    by (simp add: sample_config_def)
  have 6: "dict_get sample_config ''log_path'' (JStr ''logs'') = Inr (JStr ''logs'')"
    by (simp add: sample_config_def)
  have 7: "os_makedirs (base ?oenv) (JStr ''logs'') = None"
    unfolding b by (simp add: sample_env_def sample_files_def)
  have 8: "os_path_join (JStr ''logs'')
           (''execution_'' @ strftime (base ?oenv)
              (clock (base ?oenv)
                 (Suc (ticks (\<lparr>ticks = 4, effects = [MakeDirs (JStr ''data''),
                    WriteCsv (JStr ''data/output.csv'') (sample_output ''2024-01-01T00:00:01'')]\<rparr>
                    :: json world)))) @ ''.json'')
         = Inr (JStr ''logs/execution_20240101_000005.json'')"
    unfolding b by (simp add: sample_env_def digits)
  have 9: "write_log ?oenv (JStr ''logs/execution_20240101_000005.json'')
           \<lparr>pipeline_name = JStr ''adf-python-pipeline'',
            execution_time = isoformat (base ?oenv) (clock (base ?oenv)
               (ticks (\<lparr>ticks = 4, effects = [MakeDirs (JStr ''data''),
                    WriteCsv (JStr ''data/output.csv'') (sample_output ''2024-01-01T00:00:01'')]\<rparr>
                    :: json world))),
            result = Success 1 2 (JStr ''data/output.csv'') ''2024-01-01T00:00:03''\<rparr> = None"
    by (simp add: sample_orchestrator_env_def)
  from run_pipeline_logs_result [OF 1 2 3 4 5 6 7 8 9]
  show ?thesis
    unfolding b by (simp add: sample_env_def digits)
qed

section \<open>Normalizing again\<close>




















end
